theory Spec2Isabelle
  imports Main "HOL-Library.Multiset"
begin

section \<open>JavaScript values and plain objects\<close>

text \<open>
  The gateway (\<^verbatim>\<open>server.js\<close>) handles JSON bodies, multipart form fields and the
  cells of parsed CSV rows. All of them are primitive JavaScript values. Strings are
  lists of code units; only code units below 256 are represented.
\<close>

datatype jsval = JUndefined | JNull | JBool bool | JNumber int | JString string

text \<open>JavaScript truthiness, as used by \<^verbatim>\<open>!x\<close> and \<^verbatim>\<open>if (x)\<close>.\<close>

fun truthy :: "jsval \<Rightarrow> bool" where
  "truthy JUndefined = False"
| "truthy JNull = False"
| "truthy (JBool b) = b"
| "truthy (JNumber n) = (n \<noteq> 0)"
| "truthy (JString s) = (s \<noteq> [])"

text \<open>
  \<^verbatim>\<open>String.prototype.trim\<close> strips leading and trailing white space and line
  terminators: TAB, LF, VT, FF, CR, SPACE and NBSP among the code units represented here.
\<close>

definition js_whitespace :: "char \<Rightarrow> bool" where
  "js_whitespace c =
     (c = CHR 0x09 \<or> c = CHR 0x0A \<or> c = CHR 0x0B \<or> c = CHR 0x0C \<or> c = CHR 0x0D
      \<or> c = CHR 0x20 \<or> c = CHR 0xA0)"

definition js_trim :: "string \<Rightarrow> string" where
  "js_trim s = rev (dropWhile js_whitespace (rev (dropWhile js_whitespace s)))"

text \<open>
  An object that the code enumerates (\<^verbatim>\<open>Object.keys\<close>) and reads is the list of its
  own enumerable properties in the order of enumeration, with pairwise distinct keys.
\<close>

type_synonym js_object = "(string \<times> jsval) list"

definition Object_keys :: "js_object \<Rightarrow> string list" where
  "Object_keys obj = map fst obj"

text \<open>\<^verbatim>\<open>obj[key]\<close>: the value of the property, \<^verbatim>\<open>undefined\<close> when it is absent.\<close>

definition obj_get :: "js_object \<Rightarrow> string \<Rightarrow> jsval" where
  "obj_get obj key = (case map_of obj key of None \<Rightarrow> JUndefined | Some v \<Rightarrow> v)"

text \<open>
  An object that the code only assigns to and whose keys it only counts
  (\<^verbatim>\<open>cleanRow\<close>) is the map from its keys to their values; the order in which its
  keys would be enumerated is not represented. It starts as \<^verbatim>\<open>{}\<close>, the empty map.

  \<^verbatim>\<open>obj[key] = value\<close> sets the property. The key \<^verbatim>\<open>__proto__\<close> is the accessor
  inherited from \<^verbatim>\<open>Object.prototype\<close>, whose setter ignores every primitive value:
  assigning to it creates no property.
\<close>

type_synonym js_record = "string \<Rightarrow> jsval option"

definition obj_set :: "js_record \<Rightarrow> string \<Rightarrow> jsval \<Rightarrow> js_record" where
  "obj_set obj key v = (if key = ''__proto__'' then obj else obj(key \<mapsto> v))"

section \<open>The CSV data handler (server.js, lines 254 to 267)\<close>

text \<open>
  \<^verbatim>\<open>csv.parse\<close> with \<^verbatim>\<open>columns: true\<close> emits one object per data row, keyed by the
  header names. The handler copies the non-empty cells under the trimmed key into
  \<^verbatim>\<open>cleanRow\<close> and pushes \<^verbatim>\<open>cleanRow\<close> onto \<^verbatim>\<open>records\<close> when
  \<^verbatim>\<open>Object.keys(cleanRow).length > 0\<close>, that is when it has a key.
\<close>

definition clean_cell :: "js_object \<Rightarrow> js_record \<Rightarrow> string \<Rightarrow> js_record" where
  "clean_cell row cleanRow key =
     (let cleanKey = js_trim key;
          v = obj_get row key
      in if v \<noteq> JNull \<and> v \<noteq> JUndefined \<and> v \<noteq> JString ''''
         then obj_set cleanRow cleanKey v
         else cleanRow)"

definition on_data :: "js_record list \<Rightarrow> js_object \<Rightarrow> js_record list" where
  "on_data records row =
     (let cleanRow = foldl (clean_cell row) Map.empty (Object_keys row)
      in if dom cleanRow \<noteq> {} then records @ [cleanRow] else records)"

text \<open>The rows arrive in file order; \<^verbatim>\<open>records\<close> starts empty.\<close>

definition collect_records :: "js_object list \<Rightarrow> js_record list" where
  "collect_records rows = foldl on_data [] rows"

text \<open>
  The contract of the ingestor. A cell is non-empty when it is neither null, undefined
  nor the empty string. \<open>spec_record\<close> lists the non-empty columns of a row under
  their trimmed header names, in the words of the specification.
\<close>

definition non_empty :: "jsval \<Rightarrow> bool" where
  "non_empty v = (v \<noteq> JNull \<and> v \<noteq> JUndefined \<and> v \<noteq> JString '''')"

definition non_empty_columns :: "js_object \<Rightarrow> js_object" where
  "non_empty_columns row = filter (\<lambda>(k, v). non_empty v) row"

definition spec_record :: "js_object \<Rightarrow> js_object" where
  "spec_record row = map (\<lambda>(k, v). (js_trim k, v)) (non_empty_columns row)"


text \<open>
  What a record can hold of them: the columns whose trimmed name is not
  \<^verbatim>\<open>__proto__\<close>, and of several columns with one trimmed name the last.
\<close>

definition kept_columns :: "js_object \<Rightarrow> js_object" where
  "kept_columns row = filter (\<lambda>(k, v). k \<noteq> ''__proto__'') (spec_record row)"

definition record_of :: "js_object \<Rightarrow> js_record" where
  "record_of row = map_of (rev (kept_columns row))"

definition contributes :: "js_object \<Rightarrow> bool" where
  "contributes row = list_ex (\<lambda>(k, v). non_empty v \<and> js_trim k \<noteq> ''__proto__'') row"

text \<open>
  A row object: its keys are pairwise distinct. Its trimmed names are in order when
  those of the non-empty columns are pairwise distinct and different from
  \<^verbatim>\<open>__proto__\<close>.
\<close>

definition row_object :: "js_object \<Rightarrow> bool" where
  "row_object row = distinct (map fst row)"


section \<open>Sessions, the CRM adapter and the world\<close>

text \<open>
  \<^verbatim>\<open>req.session.salesforce\<close> is set by a successful authentication and read by every
  protected route.
\<close>

datatype auth_method = OAuth | SessionToken

record salesforce_session =
  accessToken :: jsval
  instanceUrl :: jsval
  userInfo :: js_object
  authMethod :: auth_method

text \<open>
  \<^verbatim>\<open>new jsforce.Connection({serverUrl, sessionId})\<close> builds a client object and
  contacts nothing; the operations invoked on it are the adapter calls. The constructor
  is library code and may throw on the options it is given.
\<close>

record connection =
  serverUrl :: jsval
  sessionId :: jsval

text \<open>One entry of the result of a create, update or upsert.\<close>

record save_result =
  result_id :: jsval
  success :: bool
  errors :: "string list"

datatype adapter_result = Single save_result | Many "save_result list"

text \<open>An object of the global describe, and the projection the route returns.\<close>

record object_entry =
  name :: string
  label :: string
  custom :: bool

record sobject_desc = object_entry +
  createable :: bool
  updateable :: bool

record field_desc =
  field_name :: string
  field_label :: string
  field_type :: string
  nillable :: bool
  defaultedOnCreate :: bool
  picklistValues :: "string list"
  field_createable :: bool
  field_updateable :: bool

record field_entry =
  entry_name :: string
  entry_label :: string
  entry_type :: string
  required :: bool
  entry_picklistValues :: "string list"

text \<open>
  The adapter is the external client library. \<open>connection_error\<close> is the message
  of the error its constructor throws for the given options, if it throws. Each
  operation fails with an error message (\<open>Inl\<close>) or returns its value (\<open>Inr\<close>); a
  handler invokes at most one operation per request.
\<close>

record adapter =
  connection_error :: "connection \<Rightarrow> string option"
  identity :: "connection \<Rightarrow> string + js_object"
  describeGlobal :: "connection \<Rightarrow> string + sobject_desc list"
  describe :: "connection \<Rightarrow> string \<Rightarrow> string + field_desc list"
  sobject_create :: "connection \<Rightarrow> jsval \<Rightarrow> js_record list \<Rightarrow> string + adapter_result"
  sobject_update :: "connection \<Rightarrow> jsval \<Rightarrow> js_record list \<Rightarrow> string + adapter_result"
  sobject_upsert ::
    "connection \<Rightarrow> jsval \<Rightarrow> js_record list \<Rightarrow> jsval \<Rightarrow> string + adapter_result"

datatype adapter_call =
    Identity connection
  | DescribeGlobal connection
  | Describe connection string
  | Create connection jsval "js_record list"
  | Update connection jsval "js_record list"
  | Upsert connection jsval "js_record list" jsval

text \<open>
  The state a request runs in: the session's \<^verbatim>\<open>salesforce\<close> entry, the files on
  disk (path to content) and the adapter operations invoked so far, oldest first.
\<close>

record world =
  salesforce :: "salesforce_session option"
  files :: "string \<Rightarrow> string option"
  calls :: "adapter_call list"

definition invoke :: "adapter_call \<Rightarrow> world \<Rightarrow> world" where
  "invoke c w = w\<lparr>calls := calls w @ [c]\<rparr>"

definition fs_existsSync :: "world \<Rightarrow> string \<Rightarrow> bool" where
  "fs_existsSync w p = (files w p \<noteq> None)"

definition fs_readFileSync :: "world \<Rightarrow> string \<Rightarrow> string + string" where
  "fs_readFileSync w p =
     (case files w p of
        None \<Rightarrow> Inl (''ENOENT: no such file or directory, open '' @ p)
      | Some content \<Rightarrow> Inr content)"

definition fs_unlinkSync :: "world \<Rightarrow> string \<Rightarrow> string + world" where
  "fs_unlinkSync w p =
     (case files w p of
        None \<Rightarrow> Inl (''ENOENT: no such file or directory, unlink '' @ p)
      | Some content \<Rightarrow> Inr (w\<lparr>files := (files w)(p := None)\<rparr>))"

section \<open>Responses\<close>

text \<open>
  \<open>failed_entries\<close> is the \<^verbatim>\<open>errors\<close> property of the upload response: one
  \<^verbatim>\<open>{id, errors}\<close> pair per failed result. \<open>UploadBody\<close> is the body with
  \<^verbatim>\<open>success: true\<close>. \<open>DefaultErrorPage\<close> is the page of the framework's
  default error handler, which answers 500 for an error that no handler caught; it
  carries the message of that error.
\<close>

record upload_summary =
  totalRecords :: nat
  successful :: nat
  failed :: nat
  failed_entries :: "(jsval \<times> string list) list"

datatype json_body =
    ErrorBody string
  | AuthBody js_object string
  | SessionInfoBody jsval jsval auth_method
  | ObjectsBody "object_entry list"
  | FieldsBody "field_entry list"
  | UploadBody upload_summary
  | DefaultErrorPage string

record response =
  status :: nat
  body :: json_body

definition unauthenticated :: response where
  "unauthenticated = \<lparr>status = 401, body = ErrorBody ''Not authenticated''\<rparr>"

text \<open>
  The protected routes build the connection from the values of the session. A session
  holds values with which a connection was built when it was stored, so building it
  again does not throw.
\<close>

definition open_connection :: "salesforce_session \<Rightarrow> connection" where
  "open_connection sf = \<lparr>serverUrl = instanceUrl sf, sessionId = accessToken sf\<rparr>"

section \<open>POST /api/auth/session (lines 95 to 132)\<close>

text \<open>
  \<^verbatim>\<open>req.body\<close> is the parsed JSON body, or absent when the body parser left it
  undefined (a request without a JSON body, where the framework version does not
  default it to \<^verbatim>\<open>{}\<close>). Line 96 destructures it before the \<^verbatim>\<open>try\<close>
  statement: on an absent body this throws, the handler's promise is rejected and the
  default error handler answers. Inside the \<^verbatim>\<open>try\<close> statement the connection is
  built from the values of the request, then the identity is asked for; an error of
  either is caught at lines 126 to 131.
\<close>

record auth_request =
  req_sessionId :: jsval
  req_instanceUrl :: jsval

definition post_auth_session ::
  "adapter \<Rightarrow> auth_request option \<Rightarrow> world \<Rightarrow> response \<times> world" where
  "post_auth_session ad req_body w =
     (case req_body of
        None \<Rightarrow>
          (\<lparr>status = 500,
            body = DefaultErrorPage
              ''Cannot destructure property 'sessionId' of 'req.body' as it is undefined.''\<rparr>,
           w)
      | Some req \<Rightarrow>
          (if \<not> truthy (req_sessionId req) \<or> \<not> truthy (req_instanceUrl req)
           then (\<lparr>status = 400,
                  body = ErrorBody ''Session ID and Instance URL are required''\<rparr>, w)
           else
             (let conn = \<lparr>serverUrl = req_instanceUrl req, sessionId = req_sessionId req\<rparr>
              in case connection_error ad conn of
                   Some err \<Rightarrow>
                     (\<lparr>status = 401,
                       body = ErrorBody
                         ''Invalid session ID or instance URL. Please check your credentials.''\<rparr>,
                      w)
                 | None \<Rightarrow>
                     (let w1 = invoke (Identity conn) w
                      in case identity ad conn of
                           Inr info \<Rightarrow>
                             (\<lparr>status = 200,
                               body = AuthBody info
                                 ''Successfully authenticated with session ID''\<rparr>,
                              w1\<lparr>salesforce := Some \<lparr>accessToken = req_sessionId req,
                                                      instanceUrl = req_instanceUrl req,
                                                      userInfo = info,
                                                      authMethod = SessionToken\<rparr>\<rparr>)
                         | Inl err \<Rightarrow>
                             (\<lparr>status = 401,
                               body = ErrorBody
                                 ''Invalid session ID or instance URL. Please check your credentials.''\<rparr>,
                              w1)))))"

section \<open>GET /api/auth/session-info (lines 154 to 164)\<close>


section \<open>The schema routes (lines 167 to 224)\<close>

text \<open>
  \<^verbatim>\<open>Array.prototype.sort\<close> is stable. With a comparator that is a total preorder the
  result is the one stable sorted arrangement, which insertion from the right computes.
  \<^verbatim>\<open>localeCompare\<close> depends on the host's collation and is a parameter.
\<close>

fun insert_sorted :: "('a \<Rightarrow> 'a \<Rightarrow> int) \<Rightarrow> 'a \<Rightarrow> 'a list \<Rightarrow> 'a list" where
  "insert_sorted cmp x [] = [x]"
| "insert_sorted cmp x (y # ys) =
     (if cmp x y \<le> 0 then x # y # ys else y # insert_sorted cmp x ys)"

definition array_sort :: "('a \<Rightarrow> 'a \<Rightarrow> int) \<Rightarrow> 'a list \<Rightarrow> 'a list" where
  "array_sort cmp xs = foldr (insert_sorted cmp) xs []"

definition project_object :: "sobject_desc \<Rightarrow> object_entry" where
  "project_object obj = \<lparr>name = name obj, label = label obj, custom = custom obj\<rparr>"

definition list_objects :: "(string \<Rightarrow> string \<Rightarrow> int) \<Rightarrow> sobject_desc list \<Rightarrow> object_entry list" where
  "list_objects localeCompare sobjects =
     array_sort (\<lambda>a b. localeCompare (label a) (label b))
       (map project_object (filter (\<lambda>obj. createable obj \<and> updateable obj) sobjects))"

definition get_objects ::
  "(string \<Rightarrow> string \<Rightarrow> int) \<Rightarrow> adapter \<Rightarrow> world \<Rightarrow> response \<times> world" where
  "get_objects localeCompare ad w =
     (case salesforce w of
        None \<Rightarrow> (unauthenticated, w)
      | Some sf \<Rightarrow>
          (let conn = open_connection sf;
               w1 = invoke (DescribeGlobal conn) w
           in case describeGlobal ad conn of
                Inl err \<Rightarrow>
                  (\<lparr>status = 500, body = ErrorBody ''Failed to fetch Salesforce objects''\<rparr>, w1)
              | Inr sobjects \<Rightarrow>
                  (\<lparr>status = 200, body = ObjectsBody (list_objects localeCompare sobjects)\<rparr>,
                   w1)))"




section \<open>The upload middleware (lines 29 to 47 and 227)\<close>

text \<open>
  \<^verbatim>\<open>upload.single('csvFile')\<close> runs on the route before the handler. It reads the
  file parts of the multipart form in order; a part without a file name is skipped.
  The first part must be in the field \<^verbatim>\<open>csvFile\<close> (the library answers any other
  field, and any second file, with the error \<^verbatim>\<open>Unexpected field\<close>) and must pass
  \<^verbatim>\<open>fileFilter\<close>; it is then written under \<^verbatim>\<open>uploads/\<close> with the name
  \<^verbatim>\<open>Date.now() + '-' + originalname\<close>. On an error the library removes what it has
  written and passes the error on; no handler of the application takes it, so the
  default error handler answers 500 and the route's handler does not run.
\<close>

record file_part =
  fieldname :: string
  originalname :: string
  mimetype :: string
  part_data :: string

record uploaded_file =
  path :: string

definition endsWith :: "string \<Rightarrow> string \<Rightarrow> bool" where
  "endsWith s suffix =
     (length suffix \<le> length s \<and> drop (length s - length suffix) s = suffix)"

definition fileFilter :: "file_part \<Rightarrow> bool" where
  "fileFilter part = (mimetype part = ''text/csv'' \<or> endsWith (originalname part) ''.csv'')"

text \<open>The decimal digits of a number, as \<^verbatim>\<open>Date.now() + '-'\<close> prints it.\<close>

fun decimal :: "nat \<Rightarrow> string" where
  "decimal n =
     (if n < 10 then [''0123456789'' ! n]
      else decimal (n div 10) @ [''0123456789'' ! (n mod 10)])"

declare decimal.simps [simp del]

definition staged_path :: "nat \<Rightarrow> file_part \<Rightarrow> string" where
  "staged_path now part = ''uploads/'' @ decimal now @ ''-'' @ originalname part"

definition upload_single ::
  "nat \<Rightarrow> file_part list \<Rightarrow> world \<Rightarrow> (string + uploaded_file option) \<times> world" where
  "upload_single now parts w =
     (case filter (\<lambda>part. originalname part \<noteq> []) parts of
        [] \<Rightarrow> (Inr None, w)
      | part # others \<Rightarrow>
          (if fieldname part \<noteq> ''csvFile'' then (Inl ''Unexpected field'', w)
           else if \<not> fileFilter part then (Inl ''Only CSV files are allowed'', w)
           else if others \<noteq> []
           then (Inl ''Unexpected field'',
                 w\<lparr>files := (files w)(staged_path now part := None)\<rparr>)
           else (Inr (Some \<lparr>path = staged_path now part\<rparr>),
                 w\<lparr>files := (files w)(staged_path now part \<mapsto> part_data part)\<rparr>)))"

section \<open>POST /api/upload: the handler (lines 227 to 324)\<close>

text \<open>
  The request as the handler gets it from the middleware: \<open>req_file\<close> is
  \<^verbatim>\<open>req.file\<close> (absent when the form carried no file), staged on disk at
  \<open>path\<close>; the other fields are \<^verbatim>\<open>req.body\<close>.
\<close>

record upload_request =
  req_file :: "uploaded_file option"
  objectName :: jsval
  operation :: jsval
  externalIdField :: jsval

text \<open>The \<^verbatim>\<open>switch (operation)\<close>; a \<^verbatim>\<open>throw\<close> is \<open>Inl\<close> of the message.\<close>

definition perform_operation ::
  "adapter \<Rightarrow> connection \<Rightarrow> upload_request \<Rightarrow> js_record list \<Rightarrow> world
     \<Rightarrow> (string + adapter_result) \<times> world" where
  "perform_operation ad conn req records w =
     (if operation req = JString ''insert'' then
        (sobject_create ad conn (objectName req) records,
         invoke (Create conn (objectName req) records) w)
      else if operation req = JString ''update'' then
        (sobject_update ad conn (objectName req) records,
         invoke (Update conn (objectName req) records) w)
      else if operation req = JString ''upsert'' then
        (if \<not> truthy (externalIdField req)
         then (Inl ''External ID field is required for upsert operation'', w)
         else
           (sobject_upsert ad conn (objectName req) records (externalIdField req),
            invoke (Upsert conn (objectName req) records (externalIdField req)) w))
      else (Inl ''Invalid operation'', w))"

text \<open>Lines 299 to 312: normalise the result to an array and aggregate.\<close>

definition normalize_result :: "adapter_result \<Rightarrow> save_result list" where
  "normalize_result result = (case result of Many rs \<Rightarrow> rs | Single r \<Rightarrow> [r])"

definition summarize :: "js_record list \<Rightarrow> adapter_result \<Rightarrow> json_body" where
  "summarize records result =
     (let results = normalize_result result;
          n_successful = length (filter (\<lambda>r. success r) results);
          failed_results = filter (\<lambda>r. \<not> success r) results
      in UploadBody
           \<lparr>totalRecords = length records,
            successful = n_successful,
            failed = length failed_results,
            failed_entries = map (\<lambda>f. (result_id f, errors f)) failed_results\<rparr>)"

text \<open>
  The body of the \<^verbatim>\<open>try\<close> block: \<open>Inl\<close> is the message of the error thrown,
  \<open>Inr\<close> the response sent. \<open>csv_parse\<close> is the parser library: it fails or
  yields the row objects in file order.
\<close>

definition upload_try ::
  "(string \<Rightarrow> string + js_object list) \<Rightarrow> adapter \<Rightarrow> salesforce_session \<Rightarrow> uploaded_file
     \<Rightarrow> upload_request \<Rightarrow> world \<Rightarrow> (string + response) \<times> world" where
  "upload_try csv_parse ad sf f req w =
     (let conn = open_connection sf in
      case fs_readFileSync w (path f) of
        Inl err \<Rightarrow> (Inl err, w)
      | Inr csvData \<Rightarrow>
          (case csv_parse csvData of
             Inl err \<Rightarrow> (Inl err, w)
           | Inr rows \<Rightarrow>
               (let records = collect_records rows in
                if length records = 0 then (Inl ''No valid records found in CSV file'', w)
                else
                  (case perform_operation ad conn req records w of
                     (Inl err, w1) \<Rightarrow> (Inl err, w1)
                   | (Inr result, w1) \<Rightarrow>
                       (case fs_unlinkSync w1 (path f) of
                          Inl err \<Rightarrow> (Inl err, w1)
                        | Inr w2 \<Rightarrow>
                            (Inr \<lparr>status = 200, body = summarize records result\<rparr>, w2))))))"

text \<open>The \<^verbatim>\<open>catch\<close> block: remove the staged file if it is still there.\<close>

definition cleanup :: "uploaded_file \<Rightarrow> world \<Rightarrow> world" where
  "cleanup f w =
     (if fs_existsSync w (path f)
      then (case fs_unlinkSync w (path f) of Inl err \<Rightarrow> w | Inr w1 \<Rightarrow> w1)
      else w)"

definition post_upload ::
  "(string \<Rightarrow> string + js_object list) \<Rightarrow> adapter \<Rightarrow> upload_request \<Rightarrow> world
     \<Rightarrow> response \<times> world" where
  "post_upload csv_parse ad req w =
     (case salesforce w of
        None \<Rightarrow> (unauthenticated, w)
      | Some sf \<Rightarrow>
          (case req_file req of
             None \<Rightarrow> (\<lparr>status = 400, body = ErrorBody ''No file uploaded''\<rparr>, w)
           | Some f \<Rightarrow>
               (case upload_try csv_parse ad sf f req w of
                  (Inr resp, w1) \<Rightarrow> (resp, w1)
                | (Inl message, w1) \<Rightarrow>
                    (\<lparr>status = 500, body = ErrorBody message\<rparr>, cleanup f w1))))"

section \<open>POST /api/upload: the route\<close>

text \<open>
  The multipart form as it arrives, \<open>now\<close> the value of \<^verbatim>\<open>Date.now()\<close>: the
  middleware, then the handler on what the middleware made of the form.
\<close>

record upload_form =
  file_parts :: "file_part list"
  form_objectName :: jsval
  form_operation :: jsval
  form_externalIdField :: jsval

definition post_upload_route ::
  "nat \<Rightarrow> (string \<Rightarrow> string + js_object list) \<Rightarrow> adapter \<Rightarrow> upload_form \<Rightarrow> world
     \<Rightarrow> response \<times> world" where
  "post_upload_route now csv_parse ad form w =
     (case upload_single now (file_parts form) w of
        (Inl err, w1) \<Rightarrow> (\<lparr>status = 500, body = DefaultErrorPage err\<rparr>, w1)
      | (Inr f, w1) \<Rightarrow>
          post_upload csv_parse ad
            \<lparr>req_file = f,
             objectName = form_objectName form,
             operation = form_operation form,
             externalIdField = form_externalIdField form\<rparr> w1)"

section \<open>Example data\<close>

text \<open>
  A comparison of strings by code units, a total preorder as every collation is; it
  stands for \<^verbatim>\<open>localeCompare\<close> in the examples.
\<close>

fun code_unit_compare :: "string \<Rightarrow> string \<Rightarrow> int" where
  "code_unit_compare [] [] = 0"
| "code_unit_compare [] (y # ys) = - 1"
| "code_unit_compare (x # xs) [] = 1"
| "code_unit_compare (x # xs) (y # ys) =
     (if (of_char x :: nat) < of_char y then - 1
      else if (of_char y :: nat) < of_char x then 1
      else code_unit_compare xs ys)"

text \<open>
  The rows of a file with header \<^verbatim>\<open>Name,Email\<close> and the data lines
  \<^verbatim>\<open>Alice,a@x.com\<close>, \<^verbatim>\<open>,\<close> and \<^verbatim>\<open>,b@x.com\<close>.
\<close>

definition example_rows :: "js_object list" where
  "example_rows =
     [[(''Name'', JString ''Alice''), (''Email'', JString ''a@x.com'')],
      [(''Name'', JString ''''), (''Email'', JString '''')],
      [(''Name'', JString ''''), (''Email'', JString ''b@x.com'')]]"


definition example_session :: salesforce_session where
  "example_session =
     \<lparr>accessToken = JString ''00Dxx!AQ'',
      instanceUrl = JString ''https://na1.example.com'',
      userInfo = [(''user_id'', JString ''005xx'')],
      authMethod = SessionToken\<rparr>"

text \<open>
  Described objects whose labels order them otherwise than their names do, one of them
  custom, and two that lack a permission.
\<close>

definition example_sobjects :: "sobject_desc list" where
  "example_sobjects =
     [\<lparr>name = ''Contact'', label = ''Person'', custom = False,
       createable = True, updateable = True\<rparr>,
      \<lparr>name = ''ApexLog'', label = ''Apex Log'', custom = False,
       createable = False, updateable = True\<rparr>,
      \<lparr>name = ''Invoice__c'', label = ''Bill'', custom = True,
       createable = True, updateable = True\<rparr>,
      \<lparr>name = ''Ledger__c'', label = ''Archive'', custom = True,
       createable = True, updateable = False\<rparr>]"

text \<open>
  An adapter whose identity check fails with the given message and whose record
  operations return the given result.
\<close>

definition example_adapter :: "string \<Rightarrow> adapter_result \<Rightarrow> adapter" where
  "example_adapter failure result =
     \<lparr>connection_error = (\<lambda>conn. None),
      identity = (\<lambda>conn. Inl failure),
      describeGlobal = (\<lambda>conn. Inr example_sobjects),
      describe = (\<lambda>conn n. Inr []),
      sobject_create = (\<lambda>conn n rs. Inr result),
      sobject_update = (\<lambda>conn n rs. Inr result),
      sobject_upsert = (\<lambda>conn n rs x. Inr result)\<rparr>"

text \<open>
  An adapter whose constructor throws, and one whose record operations report the
  object name they were given as the id of a failed result.
\<close>

definition throwing_adapter :: "string \<Rightarrow> adapter" where
  "throwing_adapter failure =
     (example_adapter ''unused'' (Many []))\<lparr>connection_error := (\<lambda>conn. Some failure)\<rparr>"

definition echo_adapter :: adapter where
  "echo_adapter =
     \<lparr>connection_error = (\<lambda>conn. None),
      identity = (\<lambda>conn. Inl ''unused''),
      describeGlobal = (\<lambda>conn. Inr []),
      describe = (\<lambda>conn n. Inr []),
      sobject_create =
        (\<lambda>conn n rs. Inr (Single \<lparr>result_id = n, success = False, errors = [''create'']\<rparr>)),
      sobject_update =
        (\<lambda>conn n rs. Inr (Single \<lparr>result_id = n, success = False, errors = [''update'']\<rparr>)),
      sobject_upsert =
        (\<lambda>conn n rs x. Inr (Single \<lparr>result_id = n, success = False, errors = [''upsert'']\<rparr>))\<rparr>"

text \<open>Two forms: a CSV file in the field \<^verbatim>\<open>csvFile\<close>, and a PDF file there.\<close>

definition csv_form :: upload_form where
  "csv_form =
     \<lparr>file_parts = [\<lparr>fieldname = ''csvFile'', originalname = ''contacts.csv'',
                      mimetype = ''text/csv'', part_data = ''Name,Email''\<rparr>],
      form_objectName = JString ''Contact'',
      form_operation = JString ''insert'',
      form_externalIdField = JUndefined\<rparr>"


definition empty_world :: world where
  "empty_world = \<lparr>salesforce = None, files = Map.empty, calls = []\<rparr>"

definition example_path :: string where
  "example_path = ''uploads/1700000000000-contacts.csv''"

text \<open>The text of a file from its lines, each ended by a line feed.\<close>

definition csv_text :: "string list \<Rightarrow> string" where
  "csv_text ls = concat (map (\<lambda>l. l @ [CHR 0x0A]) ls)"

definition example_csv :: string where
  "example_csv = csv_text [''Name,Email'', ''Alice,a@x.com'', '','', '',b@x.com'']"

definition example_world :: "salesforce_session option \<Rightarrow> string \<Rightarrow> world" where
  "example_world sess content =
     \<lparr>salesforce = sess, files = [example_path \<mapsto> content], calls = []\<rparr>"

definition example_request :: "jsval \<Rightarrow> jsval \<Rightarrow> jsval \<Rightarrow> upload_request" where
  "example_request obj op ext =
     \<lparr>req_file = Some \<lparr>path = example_path\<rparr>,
      objectName = obj, operation = op, externalIdField = ext\<rparr>"

definition example_results :: "save_result list" where
  "example_results =
     [\<lparr>result_id = JString ''003a'', success = True, errors = []\<rparr>,
      \<lparr>result_id = JString ''003b'', success = True, errors = []\<rparr>,
      \<lparr>result_id = JString ''003x'', success = False, errors = [''DUPLICATE_VALUE'']\<rparr>]"

text \<open>A file whose only data line is \<^verbatim>\<open>,\<close>: one row, both cells empty.\<close>

definition blank_csv :: string where
  "blank_csv = csv_text [''Name,Email'', '','']"

definition blank_rows :: "js_object list" where
  "blank_rows = [[(''Name'', JString ''''), (''Email'', JString '''')]]"

text \<open>Three rows for an update, each with its record id.\<close>

definition update_csv :: string where
  "update_csv = csv_text [''Id,Email'', ''003a,a@x.com'', ''003b,b@x.com'', ''003x,b@x.com'']"

definition update_rows :: "js_object list" where
  "update_rows =
     [[(''Id'', JString ''003a''), (''Email'', JString ''a@x.com'')],
      [(''Id'', JString ''003b''), (''Email'', JString ''b@x.com'')],
      [(''Id'', JString ''003x''), (''Email'', JString ''b@x.com'')]]"

section \<open>The CSV data handler: proofs\<close>

lemma clean_cell_lookup:
  "map_of row k = Some v \<Longrightarrow>
   clean_cell row acc k = (if non_empty v then obj_set acc (js_trim k) v else acc)"
  by (simp add: clean_cell_def obj_get_def non_empty_def)

lemma kept_columns_Cons:
  "kept_columns ((k, v) # ps) =
     (if non_empty v \<and> js_trim k \<noteq> ''__proto__'' then (js_trim k, v) # kept_columns ps
      else kept_columns ps)"
  by (simp add: kept_columns_def spec_record_def non_empty_columns_def)

lemma foldl_clean_cells:
  assumes "\<forall>(k, v) \<in> set ps. map_of row k = Some v"
  shows "foldl (clean_cell row) acc (map fst ps) = acc ++ map_of (rev (kept_columns ps))"
  using assms
proof (induction ps arbitrary: acc)
  case Nil
  then show ?case by (simp add: kept_columns_def spec_record_def non_empty_columns_def)
next
  case (Cons p ps)
  obtain k v where p: "p = (k, v)" by (cases p)
  have look: "map_of row k = Some v" using Cons.prems p by auto
  have rest: "\<forall>(k, v) \<in> set ps. map_of row k = Some v" using Cons.prems by auto
  show ?case
  proof (cases "non_empty v \<and> js_trim k \<noteq> ''__proto__''")
    case True
    have step: "clean_cell row acc k = acc(js_trim k \<mapsto> v)"
      using True by (simp add: clean_cell_lookup[OF look] obj_set_def)
    have "foldl (clean_cell row) (acc(js_trim k \<mapsto> v)) (map fst ps)
            = acc(js_trim k \<mapsto> v) ++ map_of (rev (kept_columns ps))"
      by (rule Cons.IH[OF rest])
    also have "\<dots> = acc ++ map_of (rev (kept_columns (p # ps)))"
      using True unfolding p kept_columns_Cons
      by (simp add: map_add_upd_left fun_eq_iff map_add_def split: option.splits)
    finally show ?thesis using step p by simp
  next
    case False
    have step: "clean_cell row acc k = acc"
      using False by (auto simp: clean_cell_lookup[OF look] obj_set_def)
    have kc: "kept_columns (p # ps) = kept_columns ps"
      using False unfolding p by (simp add: kept_columns_Cons)
    have "foldl (clean_cell row) acc (map fst ps) = acc ++ map_of (rev (kept_columns ps))"
      by (rule Cons.IH[OF rest])
    then show ?thesis using step p kc by simp
  qed
qed

lemma contributes_iff: "contributes row \<longleftrightarrow> kept_columns row \<noteq> []"
  by (auto simp: contributes_def kept_columns_def spec_record_def non_empty_columns_def
      list_ex_iff filter_empty_conv)

lemma dom_record_of: "dom (record_of row) = fst ` set (kept_columns row)"
  by (simp add: record_of_def dom_map_of_conv_image_fst)

lemma on_data_spec:
  assumes "row_object row"
  shows "on_data records row = (if contributes row then records @ [record_of row] else records)"
proof -
  have "\<forall>(k, v) \<in> set row. map_of row k = Some v"
    using assms by (auto simp: row_object_def)
  then have "foldl (clean_cell row) Map.empty (map fst row) = record_of row"
    using foldl_clean_cells[of row row Map.empty] by (simp add: record_of_def)
  moreover have "dom (record_of row) \<noteq> {} \<longleftrightarrow> contributes row"
    by (simp add: dom_record_of contributes_iff)
  ultimately show ?thesis by (simp add: on_data_def Object_keys_def)
qed

lemma foldl_on_data:
  assumes "\<forall>row \<in> set rows. row_object row"
  shows "foldl on_data acc rows = acc @ map record_of (filter contributes rows)"
  using assms
  by (induction rows arbitrary: acc) (auto simp: on_data_spec)







lemma example_rows_objects: "\<forall>row \<in> set example_rows. row_object row"
  by (simp add: example_rows_def row_object_def)

lemma example_rows_batch:
  "map record_of (filter contributes example_rows) =
     [[''Name'' \<mapsto> JString ''Alice'', ''Email'' \<mapsto> JString ''a@x.com''],
      [''Email'' \<mapsto> JString ''b@x.com'']]"
  by (simp add: example_rows_def contributes_def record_of_def kept_columns_def spec_record_def
      non_empty_columns_def non_empty_def js_trim_def js_whitespace_def)

lemma example_rows_records:
  "collect_records example_rows =
     [[''Name'' \<mapsto> JString ''Alice'', ''Email'' \<mapsto> JString ''a@x.com''],
      [''Email'' \<mapsto> JString ''b@x.com'']]"
  using foldl_on_data[OF example_rows_objects, of "[]"] example_rows_batch
  by (simp add: collect_records_def)



text \<open>
  A column whose header trims to \<^verbatim>\<open>__proto__\<close> is lost as well; a row with no
  other non-empty column contributes no record.
\<close>

lemma proto_column_dropped:
  "collect_records [[(CHR 0x0B # ''__proto__'', JString ''x'')]] = []"
  by (simp add: collect_records_def on_data_def clean_cell_def Object_keys_def obj_get_def
      obj_set_def js_trim_def js_whitespace_def)

section \<open>The protected routes without a session\<close>




lemma csv_form_staged:
  "upload_single 1700000000000 (file_parts csv_form) empty_world =
     (Inr (Some \<lparr>path = example_path\<rparr>),
      \<lparr>salesforce = None, files = [example_path \<mapsto> ''Name,Email''], calls = []\<rparr>)"
proof -
  have "decimal 1700000000000 = ''1700000000000''" by (simp add: decimal.simps)
  then have "staged_path 1700000000000 \<lparr>fieldname = ''csvFile'', originalname = ''contacts.csv'',
                      mimetype = ''text/csv'', part_data = ''Name,Email''\<rparr> = example_path"
    by (simp add: staged_path_def example_path_def)
  then show ?thesis
    by (simp add: upload_single_def csv_form_def empty_world_def fileFilter_def)
qed




section \<open>Session-token authentication\<close>




text \<open>
  Claim C8. With both parameters present and a failing identity verification (the
  connection cannot be built, or the identity check fails), the response is 401 with
  one fixed message: two runs that differ only in the adapter's failure end with the
  same response, and with the same state when both fail at the identity check.
\<close>

theorem auth_session_failure_generic:
  assumes "truthy (req_sessionId req)" and "truthy (req_instanceUrl req)"
    and "connection_error ad1 \<lparr>serverUrl = req_instanceUrl req, sessionId = req_sessionId req\<rparr>
           \<noteq> None
         \<or> identity ad1 \<lparr>serverUrl = req_instanceUrl req, sessionId = req_sessionId req\<rparr>
           = Inl e1"
    and "connection_error ad2 \<lparr>serverUrl = req_instanceUrl req, sessionId = req_sessionId req\<rparr>
           \<noteq> None
         \<or> identity ad2 \<lparr>serverUrl = req_instanceUrl req, sessionId = req_sessionId req\<rparr>
           = Inl e2"
  shows "fst (post_auth_session ad1 (Some req) w) =
           \<lparr>status = 401,
            body = ErrorBody
              ''Invalid session ID or instance URL. Please check your credentials.''\<rparr>
       \<and> fst (post_auth_session ad2 (Some req) w) = fst (post_auth_session ad1 (Some req) w)
       \<and> (connection_error ad1
             \<lparr>serverUrl = req_instanceUrl req, sessionId = req_sessionId req\<rparr> = None
          \<and> connection_error ad2
             \<lparr>serverUrl = req_instanceUrl req, sessionId = req_sessionId req\<rparr> = None
          \<longrightarrow> post_auth_session ad2 (Some req) w = post_auth_session ad1 (Some req) w)"
proof -
  let ?conn = "\<lparr>serverUrl = req_instanceUrl req, sessionId = req_sessionId req\<rparr>"
  let ?r = "\<lparr>status = 401,
            body = ErrorBody
              ''Invalid session ID or instance URL. Please check your credentials.''\<rparr>"
  have thrown: "post_auth_session ad (Some req) w = (?r, w)"
    if "connection_error ad ?conn \<noteq> None" for ad
    using that assms(1,2) by (auto simp: post_auth_session_def)
  have refused: "post_auth_session ad (Some req) w = (?r, invoke (Identity ?conn) w)"
    if "connection_error ad ?conn = None" and "identity ad ?conn = Inl e" for ad e
    using that assms(1,2) by (simp add: post_auth_session_def)
  have r1: "fst (post_auth_session ad1 (Some req) w) = ?r"
    using assms(3) thrown[of ad1] refused[of ad1 e1] by (cases "connection_error ad1 ?conn") auto
  have r2: "fst (post_auth_session ad2 (Some req) w) = ?r"
    using assms(4) thrown[of ad2] refused[of ad2 e2] by (cases "connection_error ad2 ?conn") auto
  have both: "post_auth_session ad2 (Some req) w = post_auth_session ad1 (Some req) w"
    if "connection_error ad1 ?conn = None" and "connection_error ad2 ?conn = None"
    using that assms(3,4) refused[of ad1 e1] refused[of ad2 e2] by simp
  show ?thesis using r1 r2 both by simp
qed

theorem auth_session_failure_generic_witness:
  "fst (post_auth_session (example_adapter ''INVALID_SESSION_ID'' (Many []))
          (Some \<lparr>req_sessionId = JString ''stale'',
                 req_instanceUrl = JString ''https://na1.example.com''\<rparr>)
          empty_world) =
     \<lparr>status = 401,
      body = ErrorBody ''Invalid session ID or instance URL. Please check your credentials.''\<rparr>
   \<and> post_auth_session (example_adapter ''connect ECONNREFUSED 10.0.0.7:443'' (Many []))
          (Some \<lparr>req_sessionId = JString ''stale'',
                 req_instanceUrl = JString ''https://na1.example.com''\<rparr>)
          empty_world =
       post_auth_session (example_adapter ''INVALID_SESSION_ID'' (Many []))
          (Some \<lparr>req_sessionId = JString ''stale'',
                 req_instanceUrl = JString ''https://na1.example.com''\<rparr>)
          empty_world
   \<and> fst (post_auth_session (throwing_adapter ''serverUrl.split is not a function'')
          (Some \<lparr>req_sessionId = JString ''stale'',
                 req_instanceUrl = JString ''https://na1.example.com''\<rparr>)
          empty_world) =
       fst (post_auth_session (example_adapter ''INVALID_SESSION_ID'' (Many []))
          (Some \<lparr>req_sessionId = JString ''stale'',
                 req_instanceUrl = JString ''https://na1.example.com''\<rparr>)
          empty_world)"
proof -
  let ?req = "\<lparr>req_sessionId = JString ''stale'',
               req_instanceUrl = JString ''https://na1.example.com''\<rparr>"
  let ?conn = "\<lparr>serverUrl = req_instanceUrl ?req, sessionId = req_sessionId ?req\<rparr>"
  have s: "truthy (req_sessionId ?req)" and i: "truthy (req_instanceUrl ?req)" by simp_all
  have f1: "connection_error (example_adapter ''INVALID_SESSION_ID'' (Many [])) ?conn \<noteq> None
            \<or> identity (example_adapter ''INVALID_SESSION_ID'' (Many [])) ?conn
                = Inl ''INVALID_SESSION_ID''"
    by (simp add: example_adapter_def)
  have f2: "connection_error (example_adapter ''connect ECONNREFUSED 10.0.0.7:443'' (Many []))
              ?conn \<noteq> None
            \<or> identity (example_adapter ''connect ECONNREFUSED 10.0.0.7:443'' (Many [])) ?conn
                = Inl ''connect ECONNREFUSED 10.0.0.7:443''"
    by (simp add: example_adapter_def)
  have f3: "connection_error (throwing_adapter ''serverUrl.split is not a function'') ?conn
              \<noteq> None
            \<or> identity (throwing_adapter ''serverUrl.split is not a function'') ?conn
                = Inl ''unused''"
    by (simp add: throwing_adapter_def)
  have n1: "connection_error (example_adapter ''INVALID_SESSION_ID'' (Many [])) ?conn = None"
    and n2: "connection_error (example_adapter ''connect ECONNREFUSED 10.0.0.7:443'' (Many []))
               ?conn = None"
    by (simp_all add: example_adapter_def)
  have a: "fst (post_auth_session (example_adapter ''INVALID_SESSION_ID'' (Many []))
               (Some ?req) empty_world) =
             \<lparr>status = 401,
              body = ErrorBody
                ''Invalid session ID or instance URL. Please check your credentials.''\<rparr>"
    using auth_session_failure_generic[OF s i f1 f2, of empty_world] by (rule conjunct1)
  have b: "post_auth_session (example_adapter ''connect ECONNREFUSED 10.0.0.7:443'' (Many []))
               (Some ?req) empty_world =
           post_auth_session (example_adapter ''INVALID_SESSION_ID'' (Many []))
               (Some ?req) empty_world"
    using auth_session_failure_generic[OF s i f1 f2, of empty_world] n1 n2 by (elim conjE) simp
  have c: "fst (post_auth_session (throwing_adapter ''serverUrl.split is not a function'')
               (Some ?req) empty_world) =
           fst (post_auth_session (example_adapter ''INVALID_SESSION_ID'' (Many []))
               (Some ?req) empty_world)"
    using auth_session_failure_generic[OF s i f1 f3, of empty_world] by (elim conjE)
  show ?thesis using a b c by (intro conjI)
qed

section \<open>The object list\<close>

lemma code_unit_compare_total: "code_unit_compare a b \<le> 0 \<or> code_unit_compare b a \<le> 0"
  by (induction a b rule: code_unit_compare.induct) auto

lemma code_unit_compare_Cons:
  "code_unit_compare (x # xs) (y # ys) \<le> 0 \<longleftrightarrow>
     (of_char x :: nat) < of_char y
     \<or> ((of_char x :: nat) = of_char y \<and> code_unit_compare xs ys \<le> 0)"
  by auto

lemma code_unit_compare_trans:
  "code_unit_compare a b \<le> 0 \<Longrightarrow> code_unit_compare b c \<le> 0 \<Longrightarrow> code_unit_compare a c \<le> 0"
proof (induction a arbitrary: b c)
  case Nil
  then show ?case by (cases c) auto
next
  case (Cons x xs)
  from Cons.prems(1) obtain y ys where b: "b = y # ys" by (cases b) auto
  from Cons.prems(2) b obtain z zs where c: "c = z # zs" by (cases c) auto
  have xy: "(of_char x :: nat) < of_char y
            \<or> ((of_char x :: nat) = of_char y \<and> code_unit_compare xs ys \<le> 0)"
    using Cons.prems(1) unfolding b code_unit_compare_Cons .
  have yz: "(of_char y :: nat) < of_char z
            \<or> ((of_char y :: nat) = of_char z \<and> code_unit_compare ys zs \<le> 0)"
    using Cons.prems(2) unfolding b c code_unit_compare_Cons .
  have "(of_char x :: nat) < of_char z
        \<or> ((of_char x :: nat) = of_char z \<and> code_unit_compare xs zs \<le> 0)"
    using xy yz Cons.IH[of ys zs] by auto
  then show ?case unfolding c code_unit_compare_Cons .
qed

lemma mset_insert_sorted: "mset (insert_sorted cmp x xs) = add_mset x (mset xs)"
  by (induction xs) auto

lemma mset_array_sort: "mset (array_sort cmp xs) = mset xs"
  by (induction xs) (auto simp: array_sort_def mset_insert_sorted)

lemma set_insert_sorted: "set (insert_sorted cmp x xs) = insert x (set xs)"
  by (induction xs) auto

lemma sorted_insert_sorted:
  assumes total: "\<And>a b. cmp a b \<le> 0 \<or> cmp b a \<le> 0"
    and trans: "\<And>a b c. cmp a b \<le> 0 \<Longrightarrow> cmp b c \<le> 0 \<Longrightarrow> cmp a c \<le> 0"
    and "sorted_wrt (\<lambda>a b. cmp a b \<le> 0) xs"
  shows "sorted_wrt (\<lambda>a b. cmp a b \<le> 0) (insert_sorted cmp x xs)"
  using assms(3)
proof (induction xs)
  case Nil
  then show ?case by simp
next
  case (Cons y ys)
  show ?case
  proof (cases "cmp x y \<le> 0")
    case True
    have "\<forall>z \<in> set ys. cmp x z \<le> 0"
      using Cons.prems True trans by auto
    then show ?thesis using True Cons.prems by simp
  next
    case False
    then have "cmp y x \<le> 0" using total[of x y] by simp
    then show ?thesis using False Cons by (simp add: set_insert_sorted)
  qed
qed

lemma sorted_array_sort:
  assumes total: "\<And>a b. cmp a b \<le> 0 \<or> cmp b a \<le> 0"
    and trans: "\<And>a b c. cmp a b \<le> 0 \<Longrightarrow> cmp b c \<le> 0 \<Longrightarrow> cmp a c \<le> 0"
  shows "sorted_wrt (\<lambda>a b. cmp a b \<le> 0) (array_sort cmp xs)"
proof (induction xs)
  case Nil
  then show ?case by (simp add: array_sort_def)
next
  case (Cons x xs)
  have "array_sort cmp (x # xs) = insert_sorted cmp x (array_sort cmp xs)"
    by (simp add: array_sort_def)
  then show ?case using sorted_insert_sorted[of cmp, OF total trans Cons.IH] by simp
qed

lemma insert_sorted_map:
  "insert_sorted cmp (f x) (map f xs) = map f (insert_sorted (\<lambda>a b. cmp (f a) (f b)) x xs)"
  by (induction xs) auto

lemma array_sort_map:
  "array_sort cmp (map f xs) = map f (array_sort (\<lambda>a b. cmp (f a) (f b)) xs)"
proof (induction xs)
  case Nil
  then show ?case by (simp add: array_sort_def)
next
  case (Cons x xs)
  have "array_sort cmp (map f (x # xs)) = insert_sorted cmp (f x) (array_sort cmp (map f xs))"
    by (simp add: array_sort_def)
  also have "\<dots> = map f (insert_sorted (\<lambda>a b. cmp (f a) (f b)) x
                       (array_sort (\<lambda>a b. cmp (f a) (f b)) xs))"
    by (simp add: Cons.IH insert_sorted_map)
  finally show ?case by (simp add: array_sort_def)
qed

text \<open>
  Claim C9. With a session and a successful global describe, the response is 200 and
  its list is obtained as follows: the described objects that are createable and
  updateable, each as often as described, arranged in ascending order of their label
  under the comparison \<^verbatim>\<open>localeCompare\<close> (a total preorder), each projected to its
  name, label and custom flag.
\<close>

theorem objects_filtered_projected_sorted:
  assumes auth: "salesforce w = Some sf"
    and desc: "describeGlobal ad (open_connection sf) = Inr sobjects"
    and total: "\<forall>a b. localeCompare a b \<le> 0 \<or> localeCompare b a \<le> 0"
    and trans: "\<forall>a b c. localeCompare a b \<le> 0 \<longrightarrow> localeCompare b c \<le> 0
                  \<longrightarrow> localeCompare a c \<le> 0"
  shows "\<exists>described.
           mset described = mset (filter (\<lambda>obj. createable obj \<and> updateable obj) sobjects)
           \<and> sorted_wrt (\<lambda>a b. localeCompare (label a) (label b) \<le> 0) described
           \<and> fst (get_objects localeCompare ad w) =
               \<lparr>status = 200,
                body = ObjectsBody
                  (map (\<lambda>obj. \<lparr>name = name obj, label = label obj, custom = custom obj\<rparr>)
                     described)\<rparr>"
proof -
  let ?cmp = "\<lambda>a b :: sobject_desc. localeCompare (label a) (label b)"
  let ?kept = "filter (\<lambda>obj. createable obj \<and> updateable obj) sobjects"
  let ?described = "array_sort ?cmp ?kept"
  have t1: "\<And>a b. ?cmp a b \<le> 0 \<or> ?cmp b a \<le> 0" using total by blast
  have t2: "\<And>a b c. ?cmp a b \<le> 0 \<Longrightarrow> ?cmp b c \<le> 0 \<Longrightarrow> ?cmp a c \<le> 0"
    using trans by blast
  have lab: "\<And>obj. label (project_object obj) = label obj" by (simp add: project_object_def)
  have "list_objects localeCompare sobjects = map project_object ?described"
    unfolding list_objects_def
    by (simp add: array_sort_map[of _ project_object] lab)
  then have resp: "fst (get_objects localeCompare ad w) =
      \<lparr>status = 200, body = ObjectsBody (map project_object ?described)\<rparr>"
    using auth desc by (simp add: get_objects_def Let_def)
  have p: "project_object = (\<lambda>obj. \<lparr>name = name obj, label = label obj, custom = custom obj\<rparr>)"
    by (rule ext) (simp add: project_object_def)
  have m: "mset ?described = mset ?kept" by (rule mset_array_sort)
  have s: "sorted_wrt (\<lambda>a b. ?cmp a b \<le> 0) ?described"
    by (rule sorted_array_sort[of ?cmp, OF t1 t2])
  show ?thesis using resp m s unfolding p by blast
qed

lemma example_list_objects:
  "list_objects code_unit_compare example_sobjects =
     [\<lparr>name = ''Invoice__c'', label = ''Bill'', custom = True\<rparr>,
      \<lparr>name = ''Contact'', label = ''Person'', custom = False\<rparr>]"
  by (simp add: example_sobjects_def list_objects_def array_sort_def project_object_def)

theorem objects_filtered_projected_sorted_witness:
  "fst (get_objects code_unit_compare (example_adapter ''x'' (Many []))
          (example_world (Some example_session) example_csv)) =
     \<lparr>status = 200,
      body = ObjectsBody
        [\<lparr>name = ''Invoice__c'', label = ''Bill'', custom = True\<rparr>,
         \<lparr>name = ''Contact'', label = ''Person'', custom = False\<rparr>]\<rparr>"
proof -
  let ?w = "example_world (Some example_session) example_csv"
  let ?ad = "example_adapter ''x'' (Many [])"
  let ?contact = "\<lparr>name = ''Contact'', label = ''Person'', custom = False,
                   createable = True, updateable = True\<rparr>"
  let ?invoice = "\<lparr>name = ''Invoice__c'', label = ''Bill'', custom = True,
                   createable = True, updateable = True\<rparr>"
  have a: "salesforce ?w = Some example_session" by (simp add: example_world_def)
  have d: "describeGlobal ?ad (open_connection example_session) = Inr example_sobjects"
    by (simp add: example_adapter_def)
  have t: "\<forall>a b. code_unit_compare a b \<le> 0 \<or> code_unit_compare b a \<le> 0"
    using code_unit_compare_total by blast
  have tr: "\<forall>a b c. code_unit_compare a b \<le> 0 \<longrightarrow> code_unit_compare b c \<le> 0
              \<longrightarrow> code_unit_compare a c \<le> 0"
    using code_unit_compare_trans by blast
  have f: "filter (\<lambda>obj. createable obj \<and> updateable obj) example_sobjects =
           [?contact, ?invoice]"
    by (simp add: example_sobjects_def)
  from objects_filtered_projected_sorted[OF a d t tr]
  obtain described where m: "mset described = mset [?contact, ?invoice]"
    and s: "sorted_wrt (\<lambda>a b. code_unit_compare (label a) (label b) \<le> 0) described"
    and r: "fst (get_objects code_unit_compare ?ad ?w) =
              \<lparr>status = 200,
               body = ObjectsBody
                 (map (\<lambda>obj. \<lparr>name = name obj, label = label obj, custom = custom obj\<rparr>)
                    described)\<rparr>"
    unfolding f by blast
  have len: "length described = 2" using m by (metis size_mset length_Cons list.size(3) One_nat_def Suc_1)
  then obtain x y where xy: "described = [x, y]"
    by (cases described; cases "tl described") auto
  have "described \<noteq> [?contact, ?invoice]"
    using s by auto
  moreover have "{x, y} = {?contact, ?invoice}"
    using m xy by (metis list.simps(15) set_mset_mset empty_set)
  ultimately have "described = [?invoice, ?contact]"
    using xy by (auto simp: doubleton_eq_iff)
  then show ?thesis using r by simp
qed

section \<open>The upload handler and route\<close>

lemma perform_operation_files:
  "files (snd (perform_operation ad conn req records w)) = files w"
  by (simp add: perform_operation_def invoke_def)

lemma upload_try_parsed:
  assumes "files w (path f) = Some csvData" and "csv_parse csvData = Inr rows"
    and "collect_records rows \<noteq> []"
  shows "upload_try csv_parse ad sf f req w =
     (case perform_operation ad (open_connection sf) req (collect_records rows) w of
        (Inl err, w1) \<Rightarrow> (Inl err, w1)
      | (Inr result, w1) \<Rightarrow>
          (Inr \<lparr>status = 200, body = summarize (collect_records rows) result\<rparr>,
           w1\<lparr>files := (files w1)(path f := None)\<rparr>))"
proof -
  obtain r w1 where p: "perform_operation ad (open_connection sf) req (collect_records rows) w = (r, w1)"
    by (cases "perform_operation ad (open_connection sf) req (collect_records rows) w")
  have "files w1 = files w" using perform_operation_files[of ad "open_connection sf" req "collect_records rows" w] p by simp
  then show ?thesis using assms p
    by (cases r) (simp_all add: upload_try_def fs_readFileSync_def fs_unlinkSync_def Let_def)
qed

text \<open>A response with status 200 comes from that path only.\<close>

lemma upload_try_response:
  assumes "upload_try csv_parse ad sf f req w = (Inr resp, w1)"
  shows "\<exists>csvData rows result.
           files w (path f) = Some csvData \<and> csv_parse csvData = Inr rows
           \<and> collect_records rows \<noteq> []
           \<and> fst (perform_operation ad (open_connection sf) req (collect_records rows) w)
               = Inr result"
proof -
  obtain csvData where c: "files w (path f) = Some csvData"
    using assms by (cases "files w (path f)") (auto simp: upload_try_def fs_readFileSync_def)
  obtain rows where p: "csv_parse csvData = Inr rows"
    using assms c by (cases "csv_parse csvData") (auto simp: upload_try_def fs_readFileSync_def)
  have n: "collect_records rows \<noteq> []"
    using assms c p by (auto simp: upload_try_def fs_readFileSync_def Let_def split: if_splits)
  obtain r w2 where q: "perform_operation ad (open_connection sf) req (collect_records rows) w = (r, w2)"
    by (cases "perform_operation ad (open_connection sf) req (collect_records rows) w")
  obtain result where "r = Inr result"
    using assms upload_try_parsed[of w f csvData csv_parse rows ad sf req] c p n q
    by (cases r) auto
  then show ?thesis using c p n q by auto
qed

lemma successful_upload_path:
  assumes "status (fst (post_upload csv_parse ad req w)) = 200"
  shows "\<exists>sf f csvData rows result.
           salesforce w = Some sf \<and> req_file req = Some f
           \<and> files w (path f) = Some csvData \<and> csv_parse csvData = Inr rows
           \<and> collect_records rows \<noteq> []
           \<and> fst (perform_operation ad (open_connection sf) req (collect_records rows) w)
               = Inr result"
proof -
  obtain sf where a: "salesforce w = Some sf"
    using assms by (cases "salesforce w") (auto simp: post_upload_def unauthenticated_def)
  obtain f where f: "req_file req = Some f"
    using assms a by (cases "req_file req") (auto simp: post_upload_def)
  obtain r w1 where t: "upload_try csv_parse ad sf f req w = (r, w1)"
    by (cases "upload_try csv_parse ad sf f req w")
  obtain resp where "r = Inr resp"
    using assms a f t by (cases r) (auto simp: post_upload_def)
  then show ?thesis using upload_try_response[of csv_parse ad sf f req w resp w1] t a f by blast
qed

text \<open>
  Claim C4. On a successful upload (session, staged file, parsed non-empty batch and a
  result from the adapter), the response is 200 and aggregates over the result
  normalised to an array, a single result standing for the array of that one element:
  totalRecords is the number of parsed records, successful the number of results with
  success true, failed the number with success false, and the error list holds the id
  and errors of exactly the failed results, in order.
\<close>

theorem upload_summary_aggregates:
  assumes "salesforce w = Some sf" and "req_file req = Some f"
    and "files w (path f) = Some csvData" and "csv_parse csvData = Inr rows"
    and "collect_records rows \<noteq> []"
    and "fst (perform_operation ad (open_connection sf) req (collect_records rows) w) = Inr result"
  shows "fst (post_upload csv_parse ad req w) =
           \<lparr>status = 200,
            body = UploadBody
              \<lparr>totalRecords = length (collect_records rows),
               successful = length (filter success (normalize_result result)),
               failed = length (filter (\<lambda>r. \<not> success r) (normalize_result result)),
               failed_entries = map (\<lambda>r. (result_id r, errors r))
                                  (filter (\<lambda>r. \<not> success r) (normalize_result result))\<rparr>\<rparr>
       \<and> normalize_result (Single r) = [r] \<and> normalize_result (Many rs) = rs"
proof -
  obtain w1 where p: "perform_operation ad (open_connection sf) req (collect_records rows) w = (Inr result, w1)"
    using assms(6) by (cases "perform_operation ad (open_connection sf) req (collect_records rows) w") auto
  have "upload_try csv_parse ad sf f req w =
      (Inr \<lparr>status = 200, body = summarize (collect_records rows) result\<rparr>,
       w1\<lparr>files := (files w1)(path f := None)\<rparr>)"
    using upload_try_parsed[of w f csvData csv_parse rows ad sf req] assms(3,4,5) p by simp
  then show ?thesis using assms(1,2)
    by (simp add: post_upload_def summarize_def Let_def normalize_result_def)
qed


lemma cleanup_calls: "calls (cleanup f w) = calls w"
  by (simp add: cleanup_def fs_unlinkSync_def split: option.splits)

lemma update_rows_records: "length (collect_records update_rows) = 3"
  by (simp add: update_rows_def collect_records_def on_data_def clean_cell_def Object_keys_def
      obj_get_def obj_set_def js_trim_def js_whitespace_def)

theorem upload_summary_aggregates_witness:
  "fst (post_upload (\<lambda>csvData. Inr update_rows)
          (example_adapter ''x'' (Many example_results))
          (example_request (JString ''Contact'') (JString ''update'') JUndefined)
          (example_world (Some example_session) update_csv)) =
     \<lparr>status = 200,
      body = UploadBody
        \<lparr>totalRecords = 3, successful = 2, failed = 1,
         failed_entries = [(JString ''003x'', [''DUPLICATE_VALUE''])]\<rparr>\<rparr>"
proof -
  let ?req = "example_request (JString ''Contact'') (JString ''update'') JUndefined"
  let ?w = "example_world (Some example_session) update_csv"
  let ?ad = "example_adapter ''x'' (Many example_results)"
  have a: "salesforce ?w = Some example_session" by (simp add: example_world_def)
  have f: "req_file ?req = Some \<lparr>path = example_path\<rparr>" by (simp add: example_request_def)
  have c: "files ?w (path \<lparr>path = example_path\<rparr>) = Some update_csv"
    by (simp add: example_world_def)
  have p: "(\<lambda>csvData. Inr update_rows) update_csv = (Inr update_rows :: string + js_object list)"
    by simp
  have n: "collect_records update_rows \<noteq> []"
    using update_rows_records by auto
  have r: "fst (perform_operation ?ad (open_connection example_session) ?req
             (collect_records update_rows) ?w) = Inr (Many example_results)"
    by (simp add: perform_operation_def example_request_def example_adapter_def)
  show ?thesis
    using upload_summary_aggregates[of ?w example_session ?req "\<lparr>path = example_path\<rparr>"
        update_csv "\<lambda>csvData. Inr update_rows" update_rows ?ad "Many example_results", OF a f c p n r]
    by (simp add: update_rows_records normalize_result_def example_results_def)
qed

text \<open>
  Claim C5, as amended. When the cleaned batch of an authenticated upload is empty, the
  request fails through the generic handler: status 500 with the message
  \<^verbatim>\<open>No valid records found in CSV file\<close>, and no adapter operation is invoked.
\<close>

theorem upload_empty_batch_fails:
  assumes "salesforce w = Some sf" and "req_file req = Some f"
    and "files w (path f) = Some csvData" and "csv_parse csvData = Inr rows"
    and "collect_records rows = []"
  shows "fst (post_upload csv_parse ad req w) =
           \<lparr>status = 500, body = ErrorBody ''No valid records found in CSV file''\<rparr>
       \<and> calls (snd (post_upload csv_parse ad req w)) = calls w"
  using assms
  by (simp add: post_upload_def upload_try_def fs_readFileSync_def Let_def cleanup_calls)

lemma blank_rows_records: "collect_records blank_rows = []"
  by (simp add: blank_rows_def collect_records_def on_data_def clean_cell_def Object_keys_def
      obj_get_def)

theorem upload_empty_batch_fails_witness:
  "fst (post_upload (\<lambda>csvData. Inr blank_rows) (example_adapter ''x'' (Many []))
          (example_request (JString ''Contact'') (JString ''insert'') JUndefined)
          (example_world (Some example_session) blank_csv)) =
     \<lparr>status = 500, body = ErrorBody ''No valid records found in CSV file''\<rparr>
   \<and> calls (snd (post_upload (\<lambda>csvData. Inr blank_rows) (example_adapter ''x'' (Many []))
          (example_request (JString ''Contact'') (JString ''insert'') JUndefined)
          (example_world (Some example_session) blank_csv))) = []"
proof -
  let ?req = "example_request (JString ''Contact'') (JString ''insert'') JUndefined"
  let ?w = "example_world (Some example_session) blank_csv"
  have a: "salesforce ?w = Some example_session" by (simp add: example_world_def)
  have f: "req_file ?req = Some \<lparr>path = example_path\<rparr>" by (simp add: example_request_def)
  have c: "files ?w (path \<lparr>path = example_path\<rparr>) = Some blank_csv"
    by (simp add: example_world_def)
  have p: "(\<lambda>csvData. Inr blank_rows) blank_csv = (Inr blank_rows :: string + js_object list)"
    by simp
  have k: "calls ?w = []" by (simp add: example_world_def)
  show ?thesis
    using upload_empty_batch_fails[of ?w example_session ?req "\<lparr>path = example_path\<rparr>"
        blank_csv "\<lambda>csvData. Inr blank_rows" blank_rows "example_adapter ''x'' (Many [])",
        OF a f c p blank_rows_records]
    unfolding k .
qed

text \<open>
  Claim C5 as stated fails: the error is not a validation error answered with 400, and
  its message is not \<^verbatim>\<open>No valid records found\<close>.
\<close>

theorem upload_empty_batch_counterexample:
  "status (fst (post_upload (\<lambda>csvData. Inr blank_rows) (example_adapter ''x'' (Many []))
          (example_request (JString ''Contact'') (JString ''insert'') JUndefined)
          (example_world (Some example_session) blank_csv))) \<noteq> 400
   \<and> body (fst (post_upload (\<lambda>csvData. Inr blank_rows) (example_adapter ''x'' (Many []))
          (example_request (JString ''Contact'') (JString ''insert'') JUndefined)
          (example_world (Some example_session) blank_csv)))
       \<noteq> ErrorBody ''No valid records found''"
  by (simp add: post_upload_def upload_try_def fs_readFileSync_def Let_def example_world_def
      example_request_def blank_rows_records)

lemma upsert_try_fails:
  assumes "operation req = JString ''upsert''" and "\<not> truthy (externalIdField req)"
  shows "\<exists>message. upload_try csv_parse ad sf f req w = (Inl message, w)"
  using assms
  by (simp add: upload_try_def fs_readFileSync_def perform_operation_def Let_def
      split: option.splits sum.splits)

text \<open>
  Claim C6. An authenticated upload with operation \<^verbatim>\<open>upsert\<close> and no (or an
  empty) \<^verbatim>\<open>externalIdField\<close> ends with an error response, 400 or 500, and
  invokes no adapter operation; when the file was staged and parsed to a non-empty batch
  the error is the one the upsert case throws.
\<close>

theorem upsert_without_external_id_fails:
  assumes "salesforce w = Some sf" and "operation req = JString ''upsert''"
    and "\<not> truthy (externalIdField req)"
  shows "(\<exists>message. body (fst (post_upload csv_parse ad req w)) = ErrorBody message)
       \<and> (status (fst (post_upload csv_parse ad req w)) = 400
            \<or> status (fst (post_upload csv_parse ad req w)) = 500)
       \<and> calls (snd (post_upload csv_parse ad req w)) = calls w
       \<and> (\<forall>f csvData rows.
             req_file req = Some f \<and> files w (path f) = Some csvData
             \<and> csv_parse csvData = Inr rows \<and> collect_records rows \<noteq> [] \<longrightarrow>
             fst (post_upload csv_parse ad req w) =
               \<lparr>status = 500,
                body = ErrorBody ''External ID field is required for upsert operation''\<rparr>)"
proof (cases "req_file req")
  case None
  then show ?thesis using assms(1) by (simp add: post_upload_def)
next
  case (Some f)
  obtain message where t: "upload_try csv_parse ad sf f req w = (Inl message, w)"
    using upsert_try_fails[OF assms(2,3)] by blast
  have r: "post_upload csv_parse ad req w =
             (\<lparr>status = 500, body = ErrorBody message\<rparr>, cleanup f w)"
    using assms(1) Some t by (simp add: post_upload_def)
  have "message = ''External ID field is required for upsert operation''"
    if "files w (path f) = Some csvData" and "csv_parse csvData = Inr rows"
      and "collect_records rows \<noteq> []" for csvData rows
    using t that assms(2,3)
    by (simp add: upload_try_def fs_readFileSync_def perform_operation_def Let_def)
  then show ?thesis using r Some by (auto simp: cleanup_calls)
qed

theorem upsert_without_external_id_fails_witness:
  "fst (post_upload (\<lambda>csvData. Inr example_rows) (example_adapter ''x'' (Many []))
          (example_request (JString ''Contact'') (JString ''upsert'') JUndefined)
          (example_world (Some example_session) example_csv)) =
     \<lparr>status = 500, body = ErrorBody ''External ID field is required for upsert operation''\<rparr>
   \<and> calls (snd (post_upload (\<lambda>csvData. Inr example_rows) (example_adapter ''x'' (Many []))
          (example_request (JString ''Contact'') (JString ''upsert'') JUndefined)
          (example_world (Some example_session) example_csv))) = []"
proof -
  let ?req = "example_request (JString ''Contact'') (JString ''upsert'') JUndefined"
  let ?w = "example_world (Some example_session) example_csv"
  have a: "salesforce ?w = Some example_session" by (simp add: example_world_def)
  have o: "operation ?req = JString ''upsert''" by (simp add: example_request_def)
  have e: "\<not> truthy (externalIdField ?req)" by (simp add: example_request_def)
  have f: "req_file ?req = Some \<lparr>path = example_path\<rparr>" by (simp add: example_request_def)
  have c: "files ?w (path \<lparr>path = example_path\<rparr>) = Some example_csv"
    by (simp add: example_world_def)
  have n: "collect_records example_rows \<noteq> []" by (simp add: example_rows_records)
  have k: "calls ?w = []" by (simp add: example_world_def)
  from upsert_without_external_id_fails[OF a o e, of "\<lambda>csvData. Inr example_rows"
      "example_adapter ''x'' (Many [])"]
  show ?thesis using f c n unfolding k by blast
qed

text \<open>
  Claim C10. The handler does not validate \<^verbatim>\<open>objectName\<close>. For an authenticated
  request with a staged file, a non-empty parsed batch and an operation among insert,
  update and upsert with an external id field, exactly one adapter operation is invoked,
  the one of the operation, on the parsed batch and on \<^verbatim>\<open>objectName\<close> as supplied,
  whatever its value, a missing one and the empty string included; the response is made
  from what the adapter returns for these arguments.
\<close>

theorem object_name_passed_through:
  assumes "salesforce w = Some sf" and "req_file req = Some f"
    and "files w (path f) = Some csvData" and "csv_parse csvData = Inr rows"
    and "collect_records rows \<noteq> []"
    and "operation req = JString ''insert'' \<or> operation req = JString ''update''
         \<or> (operation req = JString ''upsert'' \<and> truthy (externalIdField req))"
  shows "calls (snd (post_upload csv_parse ad req w)) =
           calls w @
           [if operation req = JString ''insert''
            then Create (open_connection sf) (objectName req) (collect_records rows)
            else if operation req = JString ''update''
            then Update (open_connection sf) (objectName req) (collect_records rows)
            else Upsert (open_connection sf) (objectName req) (collect_records rows)
                   (externalIdField req)]
       \<and> fst (post_upload csv_parse ad req w) =
           (case (if operation req = JString ''insert''
                  then sobject_create ad (open_connection sf) (objectName req)
                         (collect_records rows)
                  else if operation req = JString ''update''
                  then sobject_update ad (open_connection sf) (objectName req)
                         (collect_records rows)
                  else sobject_upsert ad (open_connection sf) (objectName req)
                         (collect_records rows) (externalIdField req)) of
              Inl err \<Rightarrow> \<lparr>status = 500, body = ErrorBody err\<rparr>
            | Inr result \<Rightarrow>
                \<lparr>status = 200, body = summarize (collect_records rows) result\<rparr>)"
proof -
  let ?call = "if operation req = JString ''insert''
            then Create (open_connection sf) (objectName req) (collect_records rows)
            else if operation req = JString ''update''
            then Update (open_connection sf) (objectName req) (collect_records rows)
            else Upsert (open_connection sf) (objectName req) (collect_records rows)
                   (externalIdField req)"
  let ?outcome = "if operation req = JString ''insert''
                  then sobject_create ad (open_connection sf) (objectName req)
                         (collect_records rows)
                  else if operation req = JString ''update''
                  then sobject_update ad (open_connection sf) (objectName req)
                         (collect_records rows)
                  else sobject_upsert ad (open_connection sf) (objectName req)
                         (collect_records rows) (externalIdField req)"
  obtain r w1 where p:
    "perform_operation ad (open_connection sf) req (collect_records rows) w = (r, w1)"
    by (cases "perform_operation ad (open_connection sf) req (collect_records rows) w")
  have w1: "calls w1 = calls w @ [?call]"
    using p assms(6) by (auto simp: perform_operation_def invoke_def)
  have r: "r = ?outcome"
    using p assms(6) by (auto simp: perform_operation_def)
  have t: "upload_try csv_parse ad sf f req w =
     (case (r, w1) of
        (Inl err, w1) \<Rightarrow> (Inl err, w1)
      | (Inr result, w1) \<Rightarrow>
          (Inr \<lparr>status = 200, body = summarize (collect_records rows) result\<rparr>,
           w1\<lparr>files := (files w1)(path f := None)\<rparr>))"
    using upload_try_parsed[of w f csvData csv_parse rows ad sf req] assms(3,4,5) p by simp
  have "calls (snd (post_upload csv_parse ad req w)) = calls w @ [?call]
      \<and> fst (post_upload csv_parse ad req w) =
          (case r of
             Inl err \<Rightarrow> \<lparr>status = 500, body = ErrorBody err\<rparr>
           | Inr result \<Rightarrow> \<lparr>status = 200, body = summarize (collect_records rows) result\<rparr>)"
    using assms(1,2) t w1 by (cases r) (simp_all add: post_upload_def cleanup_calls)
  then show ?thesis unfolding r .
qed

theorem object_name_passed_through_witness:
  "post_upload (\<lambda>csvData. Inr example_rows) echo_adapter
     (example_request JUndefined (JString ''insert'') JUndefined)
     (example_world (Some example_session) example_csv) =
     (\<lparr>status = 200,
       body = UploadBody
         \<lparr>totalRecords = 2, successful = 0, failed = 1,
          failed_entries = [(JUndefined, [''create''])]\<rparr>\<rparr>,
      \<lparr>salesforce = Some example_session, files = Map.empty,
       calls =
         [Create
            \<lparr>serverUrl = JString ''https://na1.example.com'',
             sessionId = JString ''00Dxx!AQ''\<rparr>
            JUndefined
            [[''Name'' \<mapsto> JString ''Alice'', ''Email'' \<mapsto> JString ''a@x.com''],
             [''Email'' \<mapsto> JString ''b@x.com'']]]\<rparr>)
   \<and> fst (post_upload (\<lambda>csvData. Inr example_rows) echo_adapter
          (example_request (JString '''') (JString ''update'') JUndefined)
          (example_world (Some example_session) example_csv)) =
       \<lparr>status = 200,
        body = UploadBody
          \<lparr>totalRecords = 2, successful = 0, failed = 1,
           failed_entries = [(JString '''', [''update''])]\<rparr>\<rparr>"
proof -
  let ?w = "example_world (Some example_session) example_csv"
  let ?p = "\<lambda>csvData :: string. (Inr example_rows :: string + js_object list)"
  let ?f = "\<lparr>path = example_path\<rparr>"
  have a: "salesforce ?w = Some example_session" by (simp add: example_world_def)
  have f: "req_file (example_request n op JUndefined) = Some ?f" for n op
    by (simp add: example_request_def)
  have c: "files ?w (path ?f) = Some example_csv" by (simp add: example_world_def)
  have p: "?p example_csv = Inr example_rows" by simp
  have n: "collect_records example_rows \<noteq> []" by (simp add: example_rows_records)
  have o1: "operation (example_request JUndefined (JString ''insert'') JUndefined)
              = JString ''insert''
            \<or> operation (example_request JUndefined (JString ''insert'') JUndefined)
              = JString ''update''
            \<or> (operation (example_request JUndefined (JString ''insert'') JUndefined)
                = JString ''upsert''
               \<and> truthy (externalIdField
                    (example_request JUndefined (JString ''insert'') JUndefined)))"
    by (simp add: example_request_def)
  have o2: "operation (example_request (JString '''') (JString ''update'') JUndefined)
              = JString ''insert''
            \<or> operation (example_request (JString '''') (JString ''update'') JUndefined)
              = JString ''update''
            \<or> (operation (example_request (JString '''') (JString ''update'') JUndefined)
                = JString ''upsert''
               \<and> truthy (externalIdField
                    (example_request (JString '''') (JString ''update'') JUndefined)))"
    by (simp add: example_request_def)
  have conn: "open_connection example_session =
      \<lparr>serverUrl = JString ''https://na1.example.com'', sessionId = JString ''00Dxx!AQ''\<rparr>"
    by (simp add: open_connection_def example_session_def)
  have k: "calls ?w = []" by (simp add: example_world_def)
  have first: "calls (snd (post_upload ?p echo_adapter
                  (example_request JUndefined (JString ''insert'') JUndefined) ?w)) =
                 [Create
                    \<lparr>serverUrl = JString ''https://na1.example.com'',
                     sessionId = JString ''00Dxx!AQ''\<rparr>
                    JUndefined
                    [[''Name'' \<mapsto> JString ''Alice'', ''Email'' \<mapsto> JString ''a@x.com''],
                     [''Email'' \<mapsto> JString ''b@x.com'']]]
               \<and> fst (post_upload ?p echo_adapter
                  (example_request JUndefined (JString ''insert'') JUndefined) ?w) =
                 \<lparr>status = 200,
                  body = UploadBody
                    \<lparr>totalRecords = 2, successful = 0, failed = 1,
                     failed_entries = [(JUndefined, [''create''])]\<rparr>\<rparr>"
    using object_name_passed_through[of ?w example_session
        "example_request JUndefined (JString ''insert'') JUndefined" ?f example_csv ?p
        example_rows echo_adapter, OF a f c p n o1]
    unfolding k conn example_rows_records
    by (simp add: example_request_def echo_adapter_def summarize_def normalize_result_def)
  have second: "fst (post_upload ?p echo_adapter
                  (example_request (JString '''') (JString ''update'') JUndefined) ?w) =
                 \<lparr>status = 200,
                  body = UploadBody
                    \<lparr>totalRecords = 2, successful = 0, failed = 1,
                     failed_entries = [(JString '''', [''update''])]\<rparr>\<rparr>"
    using object_name_passed_through[of ?w example_session
        "example_request (JString '''') (JString ''update'') JUndefined" ?f example_csv ?p
        example_rows echo_adapter, OF a f c p n o2]
    unfolding example_rows_records
    by (simp add: example_request_def echo_adapter_def summarize_def normalize_result_def)
  have rest: "salesforce (snd (post_upload ?p echo_adapter
                  (example_request JUndefined (JString ''insert'') JUndefined) ?w))
                = Some example_session
              \<and> files (snd (post_upload ?p echo_adapter
                  (example_request JUndefined (JString ''insert'') JUndefined) ?w))
                = Map.empty"
    by (simp add: post_upload_def upload_try_def fs_readFileSync_def fs_unlinkSync_def
        perform_operation_def invoke_def example_world_def example_request_def
        echo_adapter_def example_rows_records Let_def)
  have "snd (post_upload ?p echo_adapter
          (example_request JUndefined (JString ''insert'') JUndefined) ?w) =
        \<lparr>salesforce = Some example_session, files = Map.empty,
         calls =
           [Create
              \<lparr>serverUrl = JString ''https://na1.example.com'',
               sessionId = JString ''00Dxx!AQ''\<rparr>
              JUndefined
              [[''Name'' \<mapsto> JString ''Alice'', ''Email'' \<mapsto> JString ''a@x.com''],
               [''Email'' \<mapsto> JString ''b@x.com'']]]\<rparr>"
    using first rest by (cases "snd (post_upload ?p echo_adapter
          (example_request JUndefined (JString ''insert'') JUndefined) ?w)") simp
  then show ?thesis using first second by (simp add: prod_eq_iff)
qed

text \<open>
  The staged file after the response. Both exits of the \<^verbatim>\<open>try\<close> statement
  remove it.
\<close>

lemma upload_try_removes:
  "upload_try csv_parse ad sf f req w = (Inr resp, w1) \<Longrightarrow> files w1 (path f) = None"
  by (auto simp: upload_try_def fs_readFileSync_def fs_unlinkSync_def Let_def
      split: sum.splits option.splits prod.splits if_splits)

lemma cleanup_removes: "files (cleanup f w) (path f) = None"
  by (auto simp: cleanup_def fs_existsSync_def fs_unlinkSync_def split: option.splits)

lemma authenticated_upload_removes_file:
  assumes "salesforce w = Some sf" and "req_file req = Some f"
  shows "files (snd (post_upload csv_parse ad req w)) (path f) = None"
proof (cases "upload_try csv_parse ad sf f req w")
  case (Pair r w1)
  show ?thesis
  proof (cases r)
    case (Inl message)
    then show ?thesis using assms Pair by (simp add: post_upload_def cleanup_removes)
  next
    case (Inr resp)
    then show ?thesis
      using assms Pair upload_try_removes[of csv_parse ad sf f req w resp w1]
      by (simp add: post_upload_def)
  qed
qed

text \<open>
  Claim C2 says the staged file is gone after every upload request. The return at lines
  228 to 230 precedes the \<^verbatim>\<open>try\<close> statement: a request without a session is
  answered 401 and the file the middleware staged is still on disk.
\<close>

theorem unauthenticated_upload_keeps_staged_file:
  "status (fst (post_upload (\<lambda>csvData. Inr example_rows) (example_adapter ''x'' (Many []))
          (example_request (JString ''Contact'') (JString ''insert'') JUndefined)
          (example_world None example_csv))) = 401
   \<and> files (snd (post_upload (\<lambda>csvData. Inr example_rows) (example_adapter ''x'' (Many []))
          (example_request (JString ''Contact'') (JString ''insert'') JUndefined)
          (example_world None example_csv))) example_path = Some example_csv"
  by (simp add: post_upload_def example_world_def unauthenticated_def)

text \<open>
  The same on the route, from the form as it arrives: the middleware stages the file,
  the handler answers 401, and the file stays.
\<close>

lemma unauthenticated_route_keeps_staged_file:
  "status (fst (post_upload_route 1700000000000 (\<lambda>csvData. Inr example_rows)
          (example_adapter ''x'' (Many [])) csv_form empty_world)) = 401
   \<and> files (snd (post_upload_route 1700000000000 (\<lambda>csvData. Inr example_rows)
          (example_adapter ''x'' (Many [])) csv_form empty_world)) example_path
       = Some ''Name,Email''"
  by (simp add: post_upload_route_def csv_form_staged post_upload_def unauthenticated_def)

end
